theory Spec2Isabelle
  imports Complex_Main "HOL-Library.Word" "HOL-Library.Multiset"
begin

section \<open>Errors\<close>

text \<open>
  A Go \<^verbatim>\<open>error\<close> value as built by \<^verbatim>\<open>fmt.Errorf\<close> and \<^verbatim>\<open>errors.New\<close>: its
  message. A function returning \<^verbatim>\<open>(T, error)\<close> is modelled with the result type
  \<open>error + T\<close>, \<open>Inl\<close> carrying the error of a \<^verbatim>\<open>return nil, err\<close>.
\<close>

datatype error = Error string

section \<open>Resource names (pkg/k8s/k8s.go)\<close>

text \<open>
  The string constants of the package. The constant \<^verbatim>\<open>All\<close> is written \<open>All_k8s\<close>,
  since \<open>All\<close> is the universal quantifier of HOL.
\<close>

definition All_k8s :: string where "All_k8s = ''all''"
definition Authority :: string where "Authority = ''authority''"
definition DaemonSet :: string where "DaemonSet = ''daemonset''"
definition Deployment :: string where "Deployment = ''deployment''"
definition Job :: string where "Job = ''job''"
definition Namespace :: string where "Namespace = ''namespace''"
definition Pod :: string where "Pod = ''pod''"
definition ReplicationController :: string where "ReplicationController = ''replicationcontroller''"
definition ReplicaSet :: string where "ReplicaSet = ''replicaset''"
definition Service :: string where "Service = ''service''"
definition ServiceProfile :: string where "ServiceProfile = ''serviceprofile''"
definition StatefulSet :: string where "StatefulSet = ''statefulset''"

definition AllResources :: "string list" where
  "AllResources =
     [Authority, DaemonSet, Deployment, Job, Namespace, Pod, ReplicationController,
      ReplicaSet, Service, ServiceProfile, StatefulSet]"

text \<open>The \<^verbatim>\<open>switch\<close> over the friendly name: the first case that lists the name wins.\<close>

definition CanonicalResourceNameFromFriendlyName :: "string \<Rightarrow> error + string" where
  "CanonicalResourceNameFromFriendlyName friendlyName =
     (if friendlyName \<in> {''au'', ''authority'', ''authorities''} then Inr Authority
      else if friendlyName \<in> {''ds'', ''daemonset'', ''daemonsets''} then Inr DaemonSet
      else if friendlyName \<in> {''deploy'', ''deployment'', ''deployments''} then Inr Deployment
      else if friendlyName \<in> {''job'', ''jobs''} then Inr Job
      else if friendlyName \<in> {''ns'', ''namespace'', ''namespaces''} then Inr Namespace
      else if friendlyName \<in> {''po'', ''pod'', ''pods''} then Inr Pod
      else if friendlyName \<in> {''rc'', ''replicationcontroller'', ''replicationcontrollers''}
        then Inr ReplicationController
      else if friendlyName \<in> {''rs'', ''replicaset'', ''replicasets''} then Inr ReplicaSet
      else if friendlyName \<in> {''svc'', ''service'', ''services''} then Inr Service
      else if friendlyName \<in> {''sp'', ''serviceprofile'', ''serviceprofiles''} then Inr ServiceProfile
      else if friendlyName \<in> {''sts'', ''statefulset'', ''statefulsets''} then Inr StatefulSet
      else if friendlyName = ''all'' then Inr All_k8s
      else Inl (Error (''cannot find Kubernetes canonical name from friendly name ['' @
                       friendlyName @ '']'')))"

definition ShortNameFromCanonicalResourceName :: "string \<Rightarrow> string" where
  "ShortNameFromCanonicalResourceName canonicalName =
     (if canonicalName = Authority then ''au''
      else if canonicalName = DaemonSet then ''ds''
      else if canonicalName = Deployment then ''deploy''
      else if canonicalName = Job then ''job''
      else if canonicalName = Namespace then ''ns''
      else if canonicalName = Pod then ''po''
      else if canonicalName = ReplicationController then ''rc''
      else if canonicalName = ReplicaSet then ''rs''
      else if canonicalName = Service then ''svc''
      else if canonicalName = ServiceProfile then ''sp''
      else if canonicalName = StatefulSet then ''sts''
      else '''')"

section \<open>Rate helpers of the command line (package cmd)\<close>

text \<open>
  The counts are \<^verbatim>\<open>uint64\<close>: 64-bit words, whose sum wraps around. A \<^verbatim>\<open>float64\<close> result
  is a finite number, positive infinity or NaN. Go does not panic on a floating-point
  division by zero: \<^verbatim>\<open>0/0\<close> is NaN and \<^verbatim>\<open>x/0\<close> is infinite for \<^verbatim>\<open>x > 0\<close>. The rounding
  of IEEE 754 to the nearest representable number is the argument \<open>rnd\<close> of the
  conversion \<^verbatim>\<open>float64(x)\<close> and of the quotient (the operands here are not negative, and
  a quotient of two numbers between 1 and \<open>2 ^ 64\<close> neither overflows nor underflows).
\<close>

datatype float64 = Float real | PosInf | NaN

definition float64_of_uint64 :: "(real \<Rightarrow> real) \<Rightarrow> 64 word \<Rightarrow> real" where
  "float64_of_uint64 rnd x = rnd (real (unat x))"

definition float64_div :: "(real \<Rightarrow> real) \<Rightarrow> real \<Rightarrow> real \<Rightarrow> float64" where
  "float64_div rnd a b = (if b = 0 then (if a = 0 then NaN else PosInf) else Float (rnd (a / b)))"

definition getSuccessRate :: "(real \<Rightarrow> real) \<Rightarrow> 64 word \<Rightarrow> 64 word \<Rightarrow> float64" where
  "getSuccessRate rnd success failure =
     (if success + failure = 0 then Float 0.0
      else float64_div rnd (float64_of_uint64 rnd success) (float64_of_uint64 rnd (success + failure)))"

text \<open>
  The fields of \<^verbatim>\<open>pb.BasicStats\<close> that \<^verbatim>\<open>getPercentTLS\<close> reads (the generated
  message type is not among the sources; its counters are \<^verbatim>\<open>uint64\<close>). The argument
  of the function is a pointer to such a message; a nil pointer is not a message.
\<close>

record BasicStats =
  SuccessCount :: "64 word"
  FailureCount :: "64 word"
  TlsRequestCount :: "64 word"

definition getPercentTLS :: "(real \<Rightarrow> real) \<Rightarrow> BasicStats \<Rightarrow> float64" where
  "getPercentTLS rnd stats =
     (let reqTotal = SuccessCount stats + FailureCount stats
      in if reqTotal = 0 then Float 0.0
         else float64_div rnd (float64_of_uint64 rnd (TlsRequestCount stats))
                (float64_of_uint64 rnd reqTotal))"

text \<open>
  A rounding that keeps every number, for the counts and quotients that a \<^verbatim>\<open>float64\<close>
  represents exactly.
\<close>

definition exact :: "real \<Rightarrow> real" where
  "exact x = x"

section \<open>Profile derivation from a protobuf definition (package profiles)\<close>

subsection \<open>The parsed definition\<close>

text \<open>
  The syntax tree that the protobuf parser returns, as far as the handler of
  \<^verbatim>\<open>protoToServiceProfile\<close> tells its nodes apart: a package declaration with its name, a
  service with its name and elements, an rpc with its name and its parent, any other node
  that holds elements (a message, an enum, a oneof, ...) and any other node without
  elements (syntax, import, option, comment, field, ...). The parent of an rpc is a pointer
  in the source; of the parent the handler reads only whether it is a service and, if so,
  the name of the service.
\<close>

datatype parent = ParentService string | ParentOther

datatype visitee =
    ProtoPackage string
  | ProtoService string "visitee list"
  | ProtoRPC string parent
  | Container "visitee list"
  | Leaf

text \<open>
  \<^verbatim>\<open>proto.Walk\<close> of the parser library: every element is handed to the handler, and the
  elements of an element that holds elements are walked right after it (a pre-order
  traversal). The options inside an rpc are nodes that the handler ignores; they are
  not part of \<open>ProtoRPC\<close>.
\<close>

fun walk :: "(visitee \<Rightarrow> 's \<Rightarrow> 's) \<Rightarrow> visitee list \<Rightarrow> 's \<Rightarrow> 's"
  and visit :: "(visitee \<Rightarrow> 's \<Rightarrow> 's) \<Rightarrow> visitee \<Rightarrow> 's \<Rightarrow> 's" where
  "walk h [] s = s"
| "walk h (e # es) s = walk h es (visit h e s)"
| "visit h (ProtoService n els) s = walk h els (h (ProtoService n els) s)"
| "visit h (Container els) s = walk h els (h (Container els) s)"
| "visit h e s = h e s"

subsection \<open>Routes and profiles\<close>

text \<open>
  The fields of \<^verbatim>\<open>sp.RequestMatch\<close>, \<^verbatim>\<open>sp.RouteSpec\<close>, \<^verbatim>\<open>meta_v1.ObjectMeta\<close>,
  \<^verbatim>\<open>sp.ServiceProfileSpec\<close> and \<^verbatim>\<open>sp.ServiceProfile\<close> that the function sets; all other
  fields keep their zero value. \<^verbatim>\<open>Condition\<close> is a pointer. The fields \<^verbatim>\<open>Name\<close> and
  \<^verbatim>\<open>Namespace\<close> of the object metadata are written \<open>ObjectMeta_Name\<close> and
  \<open>ObjectMeta_Namespace\<close>. The type of \<^verbatim>\<open>TypeMeta\<close> and the constant
  \<^verbatim>\<open>ServiceProfileMeta\<close> are declared outside the sources at hand: the type is a
  parameter \<open>'tm\<close> and the constant an argument.
\<close>

record RequestMatch =
  Method :: string
  PathRegex :: string

record RouteSpec =
  Name :: string
  Condition :: "RequestMatch option"

record ObjectMeta =
  ObjectMeta_Name :: string
  ObjectMeta_Namespace :: string

record ServiceProfileSpec =
  Routes :: "RouteSpec list"

record 'tm ServiceProfile_rec =
  ObjectMeta :: ObjectMeta
  TypeMeta :: 'tm
  Spec :: ServiceProfileSpec

text \<open>
  \<^verbatim>\<open>regexp.QuoteMeta\<close> of the Go library: a backslash before each of the bytes
  \<^verbatim>\<open>\.+*?()|[]{}^$\<close>, every other byte unchanged. \<open>CHR 0x5C\<close> is the backslash.
\<close>

definition specialBytes :: string where
  "specialBytes = CHR 0x5C # ''.+*?()|[]{}^$''"

definition QuoteMeta :: "string \<Rightarrow> string" where
  "QuoteMeta s = concat (map (\<lambda>b. if b \<in> set specialBytes then [CHR 0x5C, b] else [b]) s)"

definition MethodPost :: string where "MethodPost = ''POST''"

text \<open>
  The closure \<^verbatim>\<open>handle\<close> with the two variables it captures: \<^verbatim>\<open>pkg\<close> and \<^verbatim>\<open>routes\<close>.
  \<^verbatim>\<open>fmt.Sprintf\<close> with the format \<^verbatim>\<open>/%s.%s/%s\<close> and three strings is their
  concatenation with the slashes and the dot.
\<close>

record walk_state =
  pkg :: string
  routes :: "RouteSpec list"

fun handle :: "visitee \<Rightarrow> walk_state \<Rightarrow> walk_state" where
  "handle (ProtoPackage typed_Name) st = st\<lparr>pkg := typed_Name\<rparr>"
| "handle (ProtoRPC typed_Name (ParentService service_Name)) st =
     st\<lparr>routes := routes st @
       [\<lparr>Name = typed_Name,
         Condition = Some \<lparr>Method = MethodPost,
           PathRegex = QuoteMeta (''/'' @ pkg st @ ''.'' @ service_Name @ ''/'' @ typed_Name)\<rparr>\<rparr>]\<rparr>"
| "handle visitee st = st"

text \<open>
  The argument \<open>parser\<close> stands for the parser by what \<^verbatim>\<open>parser.Parse()\<close> returns: an
  error or the elements of the definition.
\<close>

definition protoToServiceProfile ::
  "'tm \<Rightarrow> error + visitee list \<Rightarrow> string \<Rightarrow> string \<Rightarrow> error + 'tm ServiceProfile_rec" where
  "protoToServiceProfile ServiceProfileMeta parser namespace name =
     (case parser of
        Inl e \<Rightarrow> Inl e
      | Inr definition \<Rightarrow>
          Inr \<lparr>ObjectMeta = \<lparr>ObjectMeta_Name = name @ ''.'' @ namespace @ ''.svc.cluster.local'',
                              ObjectMeta_Namespace = namespace\<rparr>,
               TypeMeta = ServiceProfileMeta,
               Spec = \<lparr>Routes = routes (walk handle definition \<lparr>pkg = '''', routes = []\<rparr>)\<rparr>\<rparr>)"

subsection \<open>The derivation as the specification words it\<close>

text \<open>
  What a parser can return for a definition file: package declarations stand at the top
  level only; an rpc stands directly inside a service, which is its parent; the other
  elements of a service (options, comments) and everything inside a message, an enum or
  another container are neither package, service nor rpc.
\<close>

fun inert :: "visitee \<Rightarrow> bool" where
  "inert Leaf = True"
| "inert (Container els) = (\<forall>e \<in> set els. inert e)"
| "inert e = False"

fun service_element :: "string \<Rightarrow> visitee \<Rightarrow> bool" where
  "service_element s (ProtoRPC m par) = (par = ParentService s)"
| "service_element s e = inert e"

fun top_level_element :: "visitee \<Rightarrow> bool" where
  "top_level_element (ProtoPackage n) = True"
| "top_level_element (ProtoService s els) = (\<forall>e \<in> set els. service_element s e)"
| "top_level_element (ProtoRPC m par) = False"
| "top_level_element e = inert e"

definition parsed_definition :: "visitee list \<Rightarrow> bool" where
  "parsed_definition d = (\<forall>e \<in> set d. top_level_element e)"

text \<open>
  The methods declared in a service block, in the order of their declaration, and the
  triples (package, service, method) of a whole file, where the package is the last one
  declared before the service block (\<open>p\<close> to start with). \<open>spec_route\<close> is the route that
  the specification asks for such a triple.
\<close>

fun spec_service_methods :: "visitee list \<Rightarrow> string list" where
  "spec_service_methods [] = []"
| "spec_service_methods (ProtoRPC m par # els) = m # spec_service_methods els"
| "spec_service_methods (e # els) = spec_service_methods els"

fun spec_declared_methods :: "string \<Rightarrow> visitee list \<Rightarrow> (string \<times> string \<times> string) list" where
  "spec_declared_methods p [] = []"
| "spec_declared_methods p (ProtoPackage n # es) = spec_declared_methods n es"
| "spec_declared_methods p (ProtoService s els # es) =
     map (\<lambda>m. (p, s, m)) (spec_service_methods els) @ spec_declared_methods p es"
| "spec_declared_methods p (e # es) = spec_declared_methods p es"

definition spec_route :: "string \<times> string \<times> string \<Rightarrow> RouteSpec" where
  "spec_route = (\<lambda>(p, s, m).
     \<lparr>Name = m,
      Condition = Some \<lparr>Method = ''POST'', PathRegex = QuoteMeta (''/'' @ p @ ''.'' @ s @ ''/'' @ m)\<rparr>\<rparr>)"

subsection \<open>A definition file\<close>

text \<open>
  A file with a syntax statement, the declaration \<^verbatim>\<open>package emojivoto.v1;\<close>, a message
  and \<^verbatim>\<open>service VotingService { option ...; rpc VoteFish (VoteRequest) returns (VoteResponse); }\<close>
  as parsed.
\<close>

definition voting_definition :: "visitee list" where
  "voting_definition =
     [Leaf, ProtoPackage ''emojivoto.v1'', Container [Leaf, Container [Leaf]],
      ProtoService ''VotingService'' [Leaf, ProtoRPC ''VoteFish'' (ParentService ''VotingService'')]]"

section \<open>Fan-out of the metrics queries (controller/api/public/prometheus.go)\<close>

type_synonym promType = string

definition promLatencyP50 :: promType where "promLatencyP50 = ''0.5''"
definition promLatencyP95 :: promType where "promLatencyP95 = ''0.95''"
definition promLatencyP99 :: promType where "promLatencyP99 = ''0.99''"

text \<open>
  A \<^verbatim>\<open>model.Value\<close> of the Prometheus client by its type; of a vector, the samples
  (\<open>'s\<close>). \<open>ValueType_String\<close> is the name that \<^verbatim>\<open>%s\<close> prints for the type.
\<close>

datatype 's Value = ValNone | ValScalar | ValVector "'s list" | ValMatrix | ValString

fun ValueType_String :: "'s Value \<Rightarrow> string" where
  "ValueType_String ValNone = ''<ValNone>''"
| "ValueType_String ValScalar = ''scalar''"
| "ValueType_String (ValVector v) = ''vector''"
| "ValueType_String ValMatrix = ''matrix''"
| "ValueType_String ValString = ''string''"

text \<open>The struct \<^verbatim>\<open>promResult\<close>; a nil vector is the empty list, a nil error is \<open>None\<close>.\<close>

record 's promResult =
  prom :: promType
  vec :: "'s list"
  err :: "error option"

text \<open>
  \<^verbatim>\<open>queryProm\<close>; the argument \<open>Query\<close> is \<^verbatim>\<open>s.prometheusAPI.Query\<close>, the answer of
  the metrics backend to a query (the context only matters through this answer, and
  the backend answers equal queries of one call alike).
\<close>

definition queryProm :: "(string \<Rightarrow> error + 's Value) \<Rightarrow> string \<Rightarrow> error + 's list" where
  "queryProm Query query =
     (case Query query of
        Inl e \<Rightarrow> Inl e
      | Inr res \<Rightarrow>
          (case res of
             ValVector v \<Rightarrow> Inr v
           | _ \<Rightarrow> Inl (Error (''Unexpected query result type (expected Vector): '' @
                               ValueType_String res))))"

text \<open>
  What a goroutine of \<^verbatim>\<open>getPrometheusMetrics\<close> sends on the channel: the result of its
  query, tagged with its type.
\<close>

definition sub_query :: "(string \<Rightarrow> error + 's Value) \<Rightarrow> promType \<Rightarrow> string \<Rightarrow> 's promResult" where
  "sub_query Query typ query =
     (case queryProm Query query of
        Inl e \<Rightarrow> \<lparr>prom = typ, vec = [], err = Some e\<rparr>
      | Inr resultVector \<Rightarrow> \<lparr>prom = typ, vec = resultVector, err = None\<rparr>)"

definition quantiles :: "promType list" where
  "quantiles = [promLatencyP50, promLatencyP95, promLatencyP99]"

text \<open>
  The goroutines that the two \<^verbatim>\<open>for\<close> loops start, by what each will send: one for every
  entry of the map \<^verbatim>\<open>requestQueryTemplates\<close> and one for every quantile. The map is a
  list of pairs with distinct keys; the order in which Go ranges over it plays no role,
  since the order of arrival is arbitrary. \<open>Sprintf\<close> is \<^verbatim>\<open>fmt.Sprintf\<close> on a format and
  string operands, an argument.
\<close>

definition launched ::
  "(string \<Rightarrow> string list \<Rightarrow> string) \<Rightarrow> (string \<Rightarrow> error + 's Value) \<Rightarrow>
   (promType \<times> string) list \<Rightarrow> string \<Rightarrow> string \<Rightarrow> string \<Rightarrow> string \<Rightarrow> 's promResult list" where
  "launched Sprintf Query requestQueryTemplates latencyQueryTemplate labels timeWindow groupBy =
     map (\<lambda>(typ, template). sub_query Query typ (Sprintf template [labels, timeWindow, groupBy]))
       requestQueryTemplates @
     map (\<lambda>quantile. sub_query Query quantile
            (Sprintf latencyQueryTemplate [quantile, labels, timeWindow, groupBy]))
       quantiles"

text \<open>
  The channel is unbuffered and every goroutine sends once, so a run is determined by
  the order in which the goroutines get to send: the schedule, a list of the goroutines'
  indices. A schedule is valid when every goroutine occurs in it exactly once; only
  valid schedules are runs of the code. \<open>arrival\<close> is the sequence of messages in the
  order of the schedule.
\<close>

definition arrival ::
  "(string \<Rightarrow> string list \<Rightarrow> string) \<Rightarrow> (string \<Rightarrow> error + 's Value) \<Rightarrow>
   (promType \<times> string) list \<Rightarrow> string \<Rightarrow> string \<Rightarrow> string \<Rightarrow> string \<Rightarrow> nat list \<Rightarrow>
   's promResult list" where
  "arrival Sprintf Query requestQueryTemplates latencyQueryTemplate labels timeWindow groupBy schedule =
     map (\<lambda>i. launched Sprintf Query requestQueryTemplates latencyQueryTemplate labels timeWindow
                 groupBy ! i) schedule"

definition valid_schedule :: "(promType \<times> string) list \<Rightarrow> nat list \<Rightarrow> bool" where
  "valid_schedule requestQueryTemplates schedule \<longleftrightarrow>
     mset schedule = mset [0..<length requestQueryTemplates + length quantiles]"

text \<open>
  The receiving loop, \<open>n\<close> iterations to go: it takes the next message off the channel,
  keeps its error in \<^verbatim>\<open>err\<close> or appends it to \<^verbatim>\<open>results\<close>. With no message left to
  come the loop would block for ever: \<open>None\<close>. At the end it returns the error, the
  results and the messages that nobody received (their senders stay blocked).
\<close>

fun receive ::
  "nat \<Rightarrow> 's promResult list \<Rightarrow> error option \<Rightarrow> 's promResult list \<Rightarrow>
   (error option \<times> 's promResult list \<times> 's promResult list) option" where
  "receive 0 resultChan e results = Some (e, results, resultChan)"
| "receive (Suc n) [] e results = None"
| "receive (Suc n) (result # resultChan) e results =
     (case err result of
        Some e' \<Rightarrow> receive n resultChan (Some e') results
      | None \<Rightarrow> receive n resultChan e (results @ [result]))"

text \<open>
  \<^verbatim>\<open>getPrometheusMetrics\<close> under a schedule: \<open>None\<close> when it never returns, else what it
  returns (\<^verbatim>\<open>nil, err\<close> or \<^verbatim>\<open>results, nil\<close>) and the messages left outstanding.
\<close>

definition getPrometheusMetrics ::
  "(string \<Rightarrow> string list \<Rightarrow> string) \<Rightarrow> (string \<Rightarrow> error + 's Value) \<Rightarrow>
   (promType \<times> string) list \<Rightarrow> string \<Rightarrow> string \<Rightarrow> string \<Rightarrow> string \<Rightarrow> nat list \<Rightarrow>
   ((error + 's promResult list) \<times> 's promResult list) option" where
  "getPrometheusMetrics Sprintf Query requestQueryTemplates latencyQueryTemplate labels timeWindow
     groupBy schedule =
     (let resultChan = arrival Sprintf Query requestQueryTemplates latencyQueryTemplate labels
                         timeWindow groupBy schedule
      in case receive (length quantiles + length requestQueryTemplates) resultChan None [] of
           None \<Rightarrow> None
         | Some (e, results, outstanding) \<Rightarrow>
             Some (case e of Some e' \<Rightarrow> Inl e' | None \<Rightarrow> Inr results, outstanding))"

text \<open>The first and the last error among the messages, in the order received.\<close>

fun first_error :: "'s promResult list \<Rightarrow> error option" where
  "first_error [] = None"
| "first_error (r # rs) = (case err r of Some e \<Rightarrow> Some e | None \<Rightarrow> first_error rs)"

fun last_error :: "'s promResult list \<Rightarrow> error option" where
  "last_error [] = None"
| "last_error (r # rs) = (case last_error rs of Some e \<Rightarrow> Some e | None \<Rightarrow> err r)"

subsection \<open>Example queries\<close>

text \<open>
  \<^verbatim>\<open>fmt.Sprintf\<close> on formats whose only verbs are \<^verbatim>\<open>%s\<close>, with as many operands
  (\<open>CHR 0x25\<close> is the percent sign, \<open>CHR 0x73\<close> the letter s); one request template and a
  latency template; a backend whose queries for the quantiles 0.5 and 0.99 fail, and one
  that answers every query with a vector of one sample.
\<close>

fun Sprintf_s :: "string \<Rightarrow> string list \<Rightarrow> string" where
  "Sprintf_s [] args = []"
| "Sprintf_s (c # t) [] = c # Sprintf_s t []"
| "Sprintf_s (c # t) (a # args) =
     (if c = CHR 0x25 \<and> take 1 t = [CHR 0x73] then a @ Sprintf_s (drop 1 t) args
      else c # Sprintf_s t (a # args))"

definition example_templates :: "(promType \<times> string) list" where
  "example_templates = [(''QUERY_REQUESTS'', ''req%s[%s]by(%s)'')]"

definition example_latency_template :: string where
  "example_latency_template = ''lat(%s)%s[%s]by(%s)''"

definition failing_Query :: "string \<Rightarrow> error + nat Value" where
  "failing_Query query =
     (if query = ''lat(0.5){}[1m]by(pod)'' then Inl (Error ''p50 query failed'')
      else if query = ''lat(0.99){}[1m]by(pod)'' then Inl (Error ''p99 query failed'')
      else Inr (ValVector [length query]))"

definition succeeding_Query :: "string \<Rightarrow> error + nat Value" where
  "succeeding_Query query = Inr (ValVector [length query])"

section \<open>Address updates and their listeners\<close>

subsection \<open>The collecting listener (package proxy, test helpers)\<close>

text \<open>
  An \<^verbatim>\<open>updateAddress\<close> as \<^verbatim>\<open>makeUpdateAddress\<close> builds it: a TCP address and the pod
  that owns it, by namespace and name (none for an address without owner).
\<close>

record TcpAddress =
  Ip :: string
  Port :: "32 word"

record updateAddress =
  address :: TcpAddress
  pod :: "(string \<times> string) option"





subsection \<open>The Service Port Index and the Listener Registry\<close>






















subsection \<open>What a listener has been told\<close>












subsection \<open>The scenario of the specification\<close>







section \<open>Listing pods (package public)\<close>

text \<open>
  The request of \<^verbatim>\<open>ListPods\<close> as the test \<^verbatim>\<open>TestListPods\<close> builds it: a namespace and
  an optional selector with an optional resource and a label selector. The fields
  \<^verbatim>\<open>Namespace\<close>, \<^verbatim>\<open>Type\<close> and \<^verbatim>\<open>Name\<close> carry the name of their message as a prefix.
\<close>

record Resource =
  Resource_Namespace :: string
  Resource_Type :: string
  Resource_Name :: string

record ResourceSelection =
  Selection_Resource :: "Resource option"
  LabelSelector :: string

record ListPodsRequest =
  ListPodsRequest_Namespace :: string
  Selector :: "ResourceSelection option"

text \<open>\<^verbatim>\<open>req.GetSelector().GetResource()\<close>: nil when the selector or its resource is nil.\<close>

definition GetResource :: "ListPodsRequest \<Rightarrow> Resource option" where
  "GetResource req = (case Selector req of None \<Rightarrow> None | Some sel \<Rightarrow> Selection_Resource sel)"

text \<open>
  Modelled from the spec: \<^verbatim>\<open>ListPods\<close> of the public API server, whose code is not among
  the sources (only its test is). By section 7 a request with conflicting parameters is
  rejected before any cache or backend call; the test gives the conflict (a namespace
  together with a resource), the nil response and the cause. What the call does with
  any other request is the argument \<open>serve\<close>: the calls it makes to the cache and to the
  metrics backend, and the response or error it returns.
\<close>

definition ListPods ::
  "(ListPodsRequest \<Rightarrow> 'call list \<times> (error + 'rsp)) \<Rightarrow> ListPodsRequest \<Rightarrow>
   'call list \<times> (error + 'rsp)" where
  "ListPods serve req =
     (if ListPodsRequest_Namespace req \<noteq> '''' \<and> GetResource req \<noteq> None
      then ([], Inl (Error (''cannot set both namespace and resource in the request. '' @
                            ''These are mutually exclusive'')))
      else serve req)"

text \<open>
  The second expectation of \<^verbatim>\<open>TestListPods\<close>: the request and the expected error; and
  a server that would ask the metrics backend once.
\<close>

definition test_request :: ListPodsRequest where
  "test_request =
     \<lparr>ListPodsRequest_Namespace = ''test'',
      Selector = Some \<lparr>Selection_Resource =
                         Some \<lparr>Resource_Namespace = '''', Resource_Type = Pod, Resource_Name = ''''\<rparr>,
                       LabelSelector = ''''\<rparr>\<rparr>"

definition test_err :: error where
  "test_err = Error ''cannot set both namespace and resource in the request. These are mutually exclusive''"

definition querying_serve :: "ListPodsRequest \<Rightarrow> string list \<times> (error + string list)" where
  "querying_serve req = ([''query the metrics backend''], Inr [])"

section \<open>The resource detail page of the dashboard (ResourceDetail.jsx)\<close>

text \<open>
  A JavaScript value where a count is expected, by its numeric value: \<^verbatim>\<open>undefined\<close>,
  an integer (the rows carry the counts as numbers or as strings of digits, and
  \<^verbatim>\<open>v > 0\<close> compares a string by the number it denotes) or \<^verbatim>\<open>NaN\<close>. \<open>js_gt_zero v\<close>
  is \<^verbatim>\<open>v > 0\<close>, which is false for \<^verbatim>\<open>undefined\<close> and for \<^verbatim>\<open>NaN\<close>.
\<close>

datatype jsvalue = JsUndefined | JsNumber int | JsNaN

fun js_gt_zero :: "jsvalue \<Rightarrow> bool" where
  "js_gt_zero (JsNumber n) = (0 < n)"
| "js_gt_zero v = False"

text \<open>
  A row of metrics as the helpers of \<^verbatim>\<open>MetricUtils.jsx\<close> (not among the sources) hand
  it over, by the properties that the page reads: name, namespace, the total of requests
  and the pod counts (absent: \<open>None\<close>).
\<close>

record podCounts =
  totalPods :: jsvalue
  meshedPods :: jsvalue

record metric =
  metric_name :: string
  metric_namespace :: string
  totalRequests :: jsvalue
  pods :: "podCounts option"

text \<open>\<^verbatim>\<open>_get(metrics, '[0].pods.meshedPods')\<close>: undefined where the path ends early.\<close>

fun get_first_meshedPods :: "metric list \<Rightarrow> jsvalue" where
  "get_first_meshedPods [] = JsUndefined"
| "get_first_meshedPods (m # ms) = (case pods m of None \<Rightarrow> JsUndefined | Some p \<Rightarrow> meshedPods p)"

text \<open>
  The state of the component; \<open>'m\<close> are the metrics by resource of the neighbours and
  \<open>'u\<close> the unmeshed sources. The field \<^verbatim>\<open>error\<close> is written \<open>state_error\<close>.
\<close>

record ('m, 'u) ResourceDetail_state =
  resourceMetrics :: "metric list"
  resourceIsMeshed :: bool
  podMetrics :: "metric list"
  upstreamMetrics :: 'm
  downstreamMetrics :: 'm
  lastMetricReceivedTime :: int
  loaded :: bool
  pendingRequests :: bool
  state_error :: "string option"
  unmeshedSources :: 'u

text \<open>
  The callback that \<^verbatim>\<open>loadFromServer\<close> runs when the five responses of a poll have
  arrived, on the state of that moment. Its arguments are the responses as processed by
  the helpers (\<^verbatim>\<open>processSingleResourceRollup\<close>, \<^verbatim>\<open>processMultiResourceRollup\<close>), the
  table \<^verbatim>\<open>podBelongsToResource\<close>, the clock \<^verbatim>\<open>Date.now()\<close> and the component's
  \<^verbatim>\<open>unmeshedSources\<close>.
\<close>

definition loadFromServer_then ::
  "('m, 'u) ResourceDetail_state \<Rightarrow> metric list \<Rightarrow> metric list \<Rightarrow> (string \<Rightarrow> bool) \<Rightarrow> 'm \<Rightarrow> 'm \<Rightarrow>
   int \<Rightarrow> 'u \<Rightarrow> ('m, 'u) ResourceDetail_state" where
  "loadFromServer_then this_state resourceMetrics' podMetrics' podBelongsToResource upstreamMetrics'
     downstreamMetrics' now this_unmeshedSources =
     (let podMetricsForResource =
            filter (\<lambda>pod. podBelongsToResource (metric_namespace pod @ ''/'' @ metric_name pod))
              podMetrics';
          resourceIsMeshed' =
            (if resourceMetrics this_state \<noteq> []
             then js_gt_zero (get_first_meshedPods (resourceMetrics this_state))
             else True);
          lastMetricReceivedTime' =
            (case resourceMetrics' of
               [] \<Rightarrow> lastMetricReceivedTime this_state
             | m # ms \<Rightarrow>
                 if totalRequests m \<noteq> JsNumber 0 then now else lastMetricReceivedTime this_state)
      in this_state\<lparr>resourceMetrics := resourceMetrics',
           resourceIsMeshed := resourceIsMeshed',
           podMetrics := podMetricsForResource,
           upstreamMetrics := upstreamMetrics',
           downstreamMetrics := downstreamMetrics',
           lastMetricReceivedTime := lastMetricReceivedTime',
           loaded := True,
           pendingRequests := False,
           state_error := None,
           unmeshedSources := this_unmeshedSources\<rparr>)"

text \<open>A state after an earlier poll whose first row has two meshed pods, and a meshed row.\<close>

definition meshed_row :: metric where
  "meshed_row =
     \<lparr>metric_name = ''web'', metric_namespace = ''emojivoto'', totalRequests = JsNumber 10,
      pods = Some \<lparr>totalPods = JsNumber 2, meshedPods = JsNumber 2\<rparr>\<rparr>"

definition unmeshed_row :: metric where
  "unmeshed_row =
     \<lparr>metric_name = ''vote-bot'', metric_namespace = ''emojivoto'', totalRequests = JsNumber 0,
      pods = Some \<lparr>totalPods = JsNumber 1, meshedPods = JsNumber 0\<rparr>\<rparr>"

definition polled_state :: "(unit, unit) ResourceDetail_state" where
  "polled_state =
     \<lparr>resourceMetrics = [meshed_row, unmeshed_row], resourceIsMeshed = True, podMetrics = [],
      upstreamMetrics = (), downstreamMetrics = (), lastMetricReceivedTime = 0, loaded = True,
      pendingRequests = True, state_error = None, unmeshedSources = ()\<rparr>"

section \<open>Properties of the resource names\<close>

lemmas resource_names =
  All_k8s_def Authority_def DaemonSet_def Deployment_def Job_def Namespace_def Pod_def
  ReplicationController_def ReplicaSet_def Service_def ServiceProfile_def StatefulSet_def

text \<open>
  C10. For every canonical resource name \<open>c\<close> of \<open>AllResources\<close>, the short name of
  \<open>c\<close> is not the empty string, and \<open>CanonicalResourceNameFromFriendlyName\<close> maps it
  back to \<open>c\<close> with a nil error.
\<close>

theorem short_name_round_trip:
  assumes "c \<in> set AllResources"
  shows "CanonicalResourceNameFromFriendlyName (ShortNameFromCanonicalResourceName c) = Inr c
         \<and> ShortNameFromCanonicalResourceName c \<noteq> ''''"
  using assms
  by (auto simp add: AllResources_def CanonicalResourceNameFromFriendlyName_def
      ShortNameFromCanonicalResourceName_def resource_names)

theorem short_name_round_trip_witness:
  "ReplicaSet \<in> set AllResources
   \<and> CanonicalResourceNameFromFriendlyName (ShortNameFromCanonicalResourceName ReplicaSet) = Inr ReplicaSet
   \<and> ShortNameFromCanonicalResourceName ReplicaSet = ''rs''"
proof -
  have mem: "ReplicaSet \<in> set AllResources" by (simp add: AllResources_def)
  have short: "ShortNameFromCanonicalResourceName ReplicaSet = ''rs''"
    by (simp add: ShortNameFromCanonicalResourceName_def resource_names)
  from short_name_round_trip [OF mem] mem short show ?thesis by simp
qed

section \<open>Properties of the rate helpers\<close>

lemma float64_of_uint64_nonzero:
  assumes "\<And>x. 1 \<le> x \<Longrightarrow> rnd x \<noteq> 0" and "w \<noteq> 0"
  shows "float64_of_uint64 rnd w \<noteq> 0"
proof -
  from assms(2) have "unat w \<noteq> 0" by (simp add: unsigned_eq_0_iff)
  then have "1 \<le> unat w" by simp
  then have "real 1 \<le> real (unat w)" by (simp only: of_nat_le_iff)
  then have "1 \<le> real (unat w)" by (simp only: of_nat_1)
  then show ?thesis unfolding float64_of_uint64_def by (rule assms(1))
qed

text \<open>
  C9. When the (wrapping) sum \<open>success + failure\<close> is zero, \<open>getSuccessRate\<close> returns
  0.0, and so does \<open>getPercentTLS\<close> when \<open>SuccessCount + FailureCount\<close> is zero. In every
  other case the divisor is not zero and the result is the ratio of the numerator to this
  total. Neither function ever divides by zero: no result is NaN or infinite. (The
  rounding of \<^verbatim>\<open>float64\<close> takes no number from 1 on to zero.)
\<close>

theorem rate_helpers_guard_zero_total:
  assumes "\<And>x. 1 \<le> x \<Longrightarrow> rnd x \<noteq> 0"
  shows "(success + failure = 0 \<longrightarrow> getSuccessRate rnd success failure = Float 0)
   \<and> (success + failure \<noteq> 0 \<longrightarrow>
        float64_of_uint64 rnd (success + failure) \<noteq> 0
        \<and> getSuccessRate rnd success failure =
            Float (rnd (float64_of_uint64 rnd success / float64_of_uint64 rnd (success + failure))))
   \<and> (SuccessCount stats + FailureCount stats = 0 \<longrightarrow> getPercentTLS rnd stats = Float 0)
   \<and> (SuccessCount stats + FailureCount stats \<noteq> 0 \<longrightarrow>
        float64_of_uint64 rnd (SuccessCount stats + FailureCount stats) \<noteq> 0
        \<and> getPercentTLS rnd stats =
            Float (rnd (float64_of_uint64 rnd (TlsRequestCount stats) /
                        float64_of_uint64 rnd (SuccessCount stats + FailureCount stats))))
   \<and> getSuccessRate rnd success failure \<notin> {PosInf, NaN}
   \<and> getPercentTLS rnd stats \<notin> {PosInf, NaN}"
  using float64_of_uint64_nonzero [OF assms]
  by (simp add: getSuccessRate_def getPercentTLS_def float64_div_def Let_def)

theorem rate_helpers_guard_zero_total_witness:
  "getSuccessRate exact 0 0 = Float 0
   \<and> getSuccessRate exact 3 1 = Float (3 / 4)
   \<and> getSuccessRate exact (2 ^ 63) (2 ^ 63) = Float 0
   \<and> getPercentTLS exact \<lparr>SuccessCount = 0, FailureCount = 0, TlsRequestCount = 5\<rparr> = Float 0
   \<and> getPercentTLS exact \<lparr>SuccessCount = 6, FailureCount = 2, TlsRequestCount = 4\<rparr> = Float (1 / 2)"
proof -
  have r: "exact x \<noteq> 0" if "1 \<le> x" for x
    using that by (simp add: exact_def)
  from rate_helpers_guard_zero_total [of exact 0 0 "\<lparr>SuccessCount = 0, FailureCount = 0, TlsRequestCount = 5\<rparr>", OF r]
    rate_helpers_guard_zero_total [of exact 3 1 "\<lparr>SuccessCount = 6, FailureCount = 2, TlsRequestCount = 4\<rparr>", OF r]
    rate_helpers_guard_zero_total [of exact "2 ^ 63" "2 ^ 63" "\<lparr>SuccessCount = 0, FailureCount = 0, TlsRequestCount = 5\<rparr>", OF r]
  show ?thesis
    by (simp add: float64_of_uint64_def exact_def)
qed

section \<open>Properties of the profile derivation\<close>

lemma walk_unchanged:
  "(\<And>e st. e \<in> set es \<Longrightarrow> visit h e st = st) \<Longrightarrow> walk h es st = st"
  by (induction es arbitrary: st) simp_all

lemma visit_inert: "inert e \<Longrightarrow> visit handle e st = st"
proof (induction e arbitrary: st)
  case (Container els)
  have "walk handle els st = st"
    by (rule walk_unchanged) (use Container in auto)
  then show ?case by simp
qed simp_all

lemma visit_service_element:
  assumes "service_element s e"
  shows "visit handle e st =
     st\<lparr>routes := routes st @ map (\<lambda>m. spec_route (pkg st, s, m)) (spec_service_methods [e])\<rparr>"
proof (cases e)
  case (Container els)
  with assms have "inert e" by simp
  from visit_inert [OF this] Container show ?thesis by simp
qed (use assms in \<open>simp_all add: spec_route_def MethodPost_def\<close>)

lemma spec_service_methods_Cons:
  "spec_service_methods (e # els) = spec_service_methods [e] @ spec_service_methods els"
  by (cases e) simp_all

lemma walk_service_elements:
  "\<forall>e \<in> set els. service_element s e \<Longrightarrow>
   walk handle els st =
     st\<lparr>routes := routes st @ map (\<lambda>m. spec_route (pkg st, s, m)) (spec_service_methods els)\<rparr>"
proof (induction els arbitrary: st)
  case Nil
  then show ?case by simp
next
  case (Cons e els)
  have e: "service_element s e" and rest: "\<forall>x \<in> set els. service_element s x"
    using Cons.prems by simp_all
  show ?case
    by (simp add: visit_service_element [OF e] Cons.IH [OF rest]
        spec_service_methods_Cons [of e els] del: spec_service_methods.simps)
qed

lemma walk_top_level:
  "\<forall>e \<in> set es. top_level_element e \<Longrightarrow>
   routes (walk handle es st) = routes st @ map spec_route (spec_declared_methods (pkg st) es)"
proof (induction es arbitrary: st)
  case Nil
  then show ?case by simp
next
  case (Cons e es)
  have e: "top_level_element e" and rest: "\<forall>x \<in> set es. top_level_element x"
    using Cons.prems by simp_all
  note IH = Cons.IH [OF rest]
  show ?case
  proof (cases e)
    case (ProtoPackage n)
    then show ?thesis by (simp add: IH)
  next
    case (ProtoService s els)
    with e have "\<forall>x \<in> set els. service_element s x" by simp
    from walk_service_elements [OF this] ProtoService show ?thesis
      by (simp add: IH comp_def)
  next
    case (ProtoRPC m par)
    with e show ?thesis by simp
  next
    case (Container els)
    with e have "inert e" by simp
    from visit_inert [OF this] Container show ?thesis by (simp add: IH)
  next
    case Leaf
    then show ?thesis by (simp add: IH)
  qed
qed

text \<open>
  C2. For a parsed definition file, \<open>protoToServiceProfile\<close> returns a profile whose
  routes are exactly one RouteSpec for each method declared inside a service block, in
  the order of declaration, each with the name of the method, the method POST and the
  path regex \<open>QuoteMeta\<close> of /package.service/method, the package being the last one
  declared before the service block and the empty string if there is none.
\<close>

theorem routes_per_declared_method:
  assumes "parsed_definition d"
  shows "map_sum id (\<lambda>p. Routes (Spec p)) (protoToServiceProfile meta (Inr d) namespace name) =
         Inr (map spec_route (spec_declared_methods '''' d))"
  using walk_top_level [of d "\<lparr>pkg = '''', routes = []\<rparr>"] assms
  by (simp add: protoToServiceProfile_def parsed_definition_def)

text \<open>
  The instance of C2: the package emojivoto.v1 with the service VotingService and its
  method VoteFish yields the one route VoteFish with the method POST and the path regex
  of /emojivoto.v1.VotingService/VoteFish, a backslash before each dot.
\<close>

theorem routes_per_declared_method_witness:
  "parsed_definition voting_definition
   \<and> map_sum id (\<lambda>p. Routes (Spec p))
        (protoToServiceProfile () (Inr voting_definition) ''emojivoto'' ''voting-svc'') =
       Inr [\<lparr>Name = ''VoteFish'',
             Condition = Some \<lparr>Method = ''POST'',
               PathRegex = ''/emojivoto'' @ [CHR 0x5C] @ ''.v1'' @ [CHR 0x5C] @
                           ''.VotingService/VoteFish''\<rparr>\<rparr>]"
proof -
  have wf: "parsed_definition voting_definition"
    by (simp add: parsed_definition_def voting_definition_def)
  have spec: "map spec_route (spec_declared_methods '''' voting_definition) =
       [\<lparr>Name = ''VoteFish'',
         Condition = Some \<lparr>Method = ''POST'',
           PathRegex = ''/emojivoto'' @ [CHR 0x5C] @ ''.v1'' @ [CHR 0x5C] @
                       ''.VotingService/VoteFish''\<rparr>\<rparr>]"
    by (simp add: voting_definition_def spec_route_def QuoteMeta_def specialBytes_def)
  from routes_per_declared_method [OF wf, of "()" "''emojivoto''" "''voting-svc''"] wf
  show ?thesis by (simp only: spec simp_thms)
qed

text \<open>
  C5. Whatever the namespace and the service name are, the profile derived from a
  definition has the name service.namespace.svc.cluster.local, the given namespace,
  and as its routes the list that the walk of the handler over the definition has
  collected, in its order. (When the parser fails there is no profile: its error is
  returned.)
\<close>

theorem profile_metadata:
  "(\<forall>e. parser = Inl e \<longrightarrow> protoToServiceProfile meta parser namespace name = Inl e)
   \<and> (\<forall>d. parser = Inr d \<longrightarrow>
        (\<exists>p. protoToServiceProfile meta parser namespace name = Inr p
          \<and> ObjectMeta_Name (ObjectMeta p) = name @ ''.'' @ namespace @ ''.svc.cluster.local''
          \<and> ObjectMeta_Namespace (ObjectMeta p) = namespace
          \<and> TypeMeta p = meta
          \<and> Routes (Spec p) = routes (walk handle d \<lparr>pkg = '''', routes = []\<rparr>)))"
  by (simp add: protoToServiceProfile_def)

theorem profile_metadata_witness:
  "map_sum id
     (\<lambda>p. (ObjectMeta_Name (ObjectMeta p), ObjectMeta_Namespace (ObjectMeta p), map Name (Routes (Spec p))))
     (protoToServiceProfile () (Inr voting_definition) ''emojivoto'' ''voting-svc'') =
   Inr (''voting-svc.emojivoto.svc.cluster.local'', ''emojivoto'', [''VoteFish''])"
proof -
  have w: "routes (walk handle voting_definition \<lparr>pkg = '''', routes = []\<rparr>) =
       [\<lparr>Name = ''VoteFish'',
         Condition = Some \<lparr>Method = MethodPost,
           PathRegex = QuoteMeta ''/emojivoto.v1.VotingService/VoteFish''\<rparr>\<rparr>]"
    by (simp add: voting_definition_def)
  from profile_metadata [of "Inr voting_definition" "()" "''emojivoto''" "''voting-svc''"]
  obtain p where p: "protoToServiceProfile () (Inr voting_definition) ''emojivoto'' ''voting-svc'' = Inr p"
    and "ObjectMeta_Name (ObjectMeta p) = ''voting-svc'' @ ''.'' @ ''emojivoto'' @ ''.svc.cluster.local''"
    and "ObjectMeta_Namespace (ObjectMeta p) = ''emojivoto''"
    and "Routes (Spec p) = routes (walk handle voting_definition \<lparr>pkg = '''', routes = []\<rparr>)"
    by blast
  then show ?thesis by (simp add: w)
qed

section \<open>Properties of the fan-out\<close>

lemma receive_all:
  "receive (length chan) chan e results =
     Some (case last_error chan of Some e' \<Rightarrow> Some e' | None \<Rightarrow> e,
           results @ filter (\<lambda>r. err r = None) chan, [])"
  by (induction chan arbitrary: e results) (auto split: option.splits)

lemma last_error_None: "last_error rs = None \<longleftrightarrow> (\<forall>r \<in> set rs. err r = None)"
  by (induction rs) (auto split: option.splits)

lemma last_error_Some_iff: "last_error rs \<noteq> None \<longleftrightarrow> (\<exists>r \<in> set rs. err r \<noteq> None)"
  by (simp add: last_error_None)

lemma filter_all: "\<forall>r \<in> set rs. P r \<Longrightarrow> filter P rs = rs"
  by (induction rs) simp_all

lemma length_launched:
  "length (launched Sprintf Query templates latencyQueryTemplate labels timeWindow groupBy) =
   length quantiles + length templates"
  by (simp add: launched_def)

lemma mset_arrival:
  assumes "valid_schedule templates schedule"
  shows "mset (arrival Sprintf Query templates latencyQueryTemplate labels timeWindow groupBy schedule) =
         mset (launched Sprintf Query templates latencyQueryTemplate labels timeWindow groupBy)"
proof -
  let ?l = "launched Sprintf Query templates latencyQueryTemplate labels timeWindow groupBy"
  have n: "length ?l = length templates + length quantiles"
    by (simp add: length_launched)
  have "mset (map (\<lambda>i. ?l ! i) schedule) = image_mset (\<lambda>i. ?l ! i) (mset schedule)"
    by simp
  also have "\<dots> = image_mset (\<lambda>i. ?l ! i) (mset [0..<length ?l])"
    using assms by (simp only: valid_schedule_def n)
  also have "\<dots> = mset (map (\<lambda>i. ?l ! i) [0..<length ?l])"
    by simp
  also have "\<dots> = mset ?l"
    by (simp only: map_nth)
  finally show ?thesis
    by (simp only: arrival_def)
qed

lemma length_arrival:
  assumes "valid_schedule templates schedule"
  shows "length (arrival Sprintf Query templates latencyQueryTemplate labels timeWindow groupBy schedule) =
         length quantiles + length templates"
  using mset_eq_length [OF mset_arrival [OF assms]] by (simp add: length_launched)

lemma getPrometheusMetrics_valid:
  assumes "valid_schedule templates schedule"
  shows "getPrometheusMetrics Sprintf Query templates latencyQueryTemplate labels timeWindow groupBy schedule =
     (let chan = arrival Sprintf Query templates latencyQueryTemplate labels timeWindow groupBy schedule
      in Some (case last_error chan of Some e \<Rightarrow> Inl e
                | None \<Rightarrow> Inr (filter (\<lambda>r. err r = None) chan), []))"
  using receive_all [of "arrival Sprintf Query templates latencyQueryTemplate labels timeWindow groupBy schedule" None "[]"]
  by (simp add: getPrometheusMetrics_def length_arrival [OF assms] Let_def split: option.splits)

lemmas example_eval =
  arrival_def launched_def quantiles_def sub_query_def queryProm_def failing_Query_def
  succeeding_Query_def example_templates_def example_latency_template_def
  promLatencyP50_def promLatencyP95_def promLatencyP99_def

text \<open>
  C1, as the code has it. Whenever at least one of the sub-queries returns an error,
  \<open>getPrometheusMetrics\<close> returns, with a nil result and an error, after it has received
  one message from each of the sub-queries started (one for every request template and
  three for the quantiles), so that no message is left outstanding; the error returned is
  that of the last failed sub-query received.
\<close>

theorem aggregate_fails_with_last_error:
  assumes "valid_schedule templates schedule"
    and "distinct (map fst templates)"
    and "\<exists>r \<in> set (launched Sprintf Query templates latencyQueryTemplate labels timeWindow groupBy).
           err r \<noteq> None"
  shows "last_error (arrival Sprintf Query templates latencyQueryTemplate labels timeWindow groupBy schedule)
           \<noteq> None
     \<and> getPrometheusMetrics Sprintf Query templates latencyQueryTemplate labels timeWindow groupBy schedule =
         map_option (\<lambda>e. (Inl e, []))
           (last_error (arrival Sprintf Query templates latencyQueryTemplate labels timeWindow groupBy schedule))
     \<and> length (arrival Sprintf Query templates latencyQueryTemplate labels timeWindow groupBy schedule) =
         length templates + 3"
proof -
  let ?chan = "arrival Sprintf Query templates latencyQueryTemplate labels timeWindow groupBy schedule"
  have "set ?chan = set (launched Sprintf Query templates latencyQueryTemplate labels timeWindow groupBy)"
    using mset_arrival [OF assms(1)] by (rule mset_eq_setD)
  with assms(3) have "\<exists>r \<in> set ?chan. err r \<noteq> None" by simp
  then have some: "last_error ?chan \<noteq> None" by (simp only: last_error_Some_iff)
  then obtain e where e: "last_error ?chan = Some e" by blast
  have "getPrometheusMetrics Sprintf Query templates latencyQueryTemplate labels timeWindow groupBy schedule =
        Some (Inl e, [])"
    by (simp add: getPrometheusMetrics_valid [OF assms(1)] e)
  moreover have "length ?chan = length templates + 3"
    by (simp add: length_arrival [OF assms(1)] quantiles_def)
  ultimately show ?thesis
    using some e by simp
qed

theorem aggregate_fails_with_last_error_witness:
  "valid_schedule example_templates [3, 1, 0, 2]
   \<and> distinct (map fst example_templates)
   \<and> getPrometheusMetrics Sprintf_s failing_Query example_templates example_latency_template
        ''{}'' ''1m'' ''pod'' [3, 1, 0, 2] = Some (Inl (Error ''p50 query failed''), [])"
proof -
  have v: "valid_schedule example_templates [3, 1, 0, 2]"
    by (simp add: valid_schedule_def example_templates_def quantiles_def upt_rec numeral_eq_Suc)
  have d: "distinct (map fst example_templates)"
    by (simp add: example_templates_def)
  have f: "\<exists>r \<in> set (launched Sprintf_s failing_Query example_templates example_latency_template
             ''{}'' ''1m'' ''pod''). err r \<noteq> None"
    by (simp add: example_eval)
  have l: "last_error (arrival Sprintf_s failing_Query example_templates example_latency_template
             ''{}'' ''1m'' ''pod'' [3, 1, 0, 2]) = Some (Error ''p50 query failed'')"
    by (simp add: example_eval numeral_eq_Suc)
  from aggregate_fails_with_last_error [OF v d f] v d show ?thesis
    by (simp only: l option.map simp_thms)
qed

text \<open>
  C1 as stated fails. With one request template and the sub-queries for the quantiles
  0.5 and 0.99 failing, received in the order in which they were started, the error of
  the quantile 0.5 is the first one met, and the error returned is that of the quantile
  0.99.
\<close>

theorem aggregate_first_error_counterexample:
  "valid_schedule example_templates [0, 1, 2, 3]
   \<and> getPrometheusMetrics Sprintf_s failing_Query example_templates example_latency_template
        ''{}'' ''1m'' ''pod'' [0, 1, 2, 3] = Some (Inl (Error ''p99 query failed''), [])
   \<and> first_error (arrival Sprintf_s failing_Query example_templates example_latency_template
        ''{}'' ''1m'' ''pod'' [0, 1, 2, 3]) = Some (Error ''p50 query failed'')"
  by (simp add: valid_schedule_def getPrometheusMetrics_def arrival_def launched_def quantiles_def
      sub_query_def queryProm_def failing_Query_def example_templates_def example_latency_template_def
      promLatencyP50_def promLatencyP95_def promLatencyP99_def upt_rec numeral_eq_Suc)

text \<open>
  C4. Whenever all sub-queries succeed, \<open>getPrometheusMetrics\<close> returns a nil error and
  \<open>length requestQueryTemplates + 3\<close> results, with no message left outstanding: the
  results are the messages of the sub-queries started, in the order received, one tagged
  with the type of each request template and one with each of the quantiles 0.5, 0.95
  and 0.99, and each carries the vector that \<open>queryProm\<close> returned for its query.
\<close>

theorem aggregate_succeeds_with_all_results:
  assumes "valid_schedule templates schedule"
    and "distinct (map fst templates)"
    and "\<forall>r \<in> set (launched Sprintf Query templates latencyQueryTemplate labels timeWindow groupBy).
           err r = None"
  shows "getPrometheusMetrics Sprintf Query templates latencyQueryTemplate labels timeWindow groupBy schedule =
           Some (Inr (arrival Sprintf Query templates latencyQueryTemplate labels timeWindow groupBy schedule), [])
     \<and> length (arrival Sprintf Query templates latencyQueryTemplate labels timeWindow groupBy schedule) =
         length templates + 3
     \<and> mset (arrival Sprintf Query templates latencyQueryTemplate labels timeWindow groupBy schedule) =
         mset (launched Sprintf Query templates latencyQueryTemplate labels timeWindow groupBy)
     \<and> map prom (launched Sprintf Query templates latencyQueryTemplate labels timeWindow groupBy) =
         map fst templates @ [''0.5'', ''0.95'', ''0.99'']
     \<and> quantiles = [''0.5'', ''0.95'', ''0.99'']
     \<and> (\<forall>i < length templates.
           queryProm Query (Sprintf (snd (templates ! i)) [labels, timeWindow, groupBy]) =
             Inr (vec (launched Sprintf Query templates latencyQueryTemplate labels timeWindow groupBy ! i)))
     \<and> (\<forall>j < length quantiles.
           queryProm Query (Sprintf latencyQueryTemplate [quantiles ! j, labels, timeWindow, groupBy]) =
             Inr (vec (launched Sprintf Query templates latencyQueryTemplate labels timeWindow groupBy
                        ! (length templates + j))))"
proof -
  let ?chan = "arrival Sprintf Query templates latencyQueryTemplate labels timeWindow groupBy schedule"
  let ?l = "launched Sprintf Query templates latencyQueryTemplate labels timeWindow groupBy"
  have perm: "mset ?chan = mset ?l"
    by (rule mset_arrival [OF assms(1)])
  then have "set ?chan = set ?l" by (rule mset_eq_setD)
  with assms(3) have ok: "\<forall>r \<in> set ?chan. err r = None" by simp
  then have none: "last_error ?chan = None" by (simp only: last_error_None)
  have ret: "getPrometheusMetrics Sprintf Query templates latencyQueryTemplate labels timeWindow groupBy
               schedule = Some (Inr ?chan, [])"
    by (simp add: getPrometheusMetrics_valid [OF assms(1)] none filter_all [OF ok])
  have len: "length ?chan = length templates + 3"
    by (simp add: length_arrival [OF assms(1)] quantiles_def)
  have sub: "err (sub_query Query t q) = None \<Longrightarrow> queryProm Query q = Inr (vec (sub_query Query t q))"
    for t q
    by (simp add: sub_query_def split: sum.splits)
  have sub_prom: "prom (sub_query Query t q) = t" for t q
    by (simp add: sub_query_def split: sum.splits)
  have q: "quantiles = [''0.5'', ''0.95'', ''0.99'']"
    by (simp add: quantiles_def promLatencyP50_def promLatencyP95_def promLatencyP99_def)
  have tags: "map prom ?l = map fst templates @ [''0.5'', ''0.95'', ''0.99'']"
    by (simp add: launched_def quantiles_def sub_prom promLatencyP50_def promLatencyP95_def
        promLatencyP99_def comp_def case_prod_beta)
  have req: "queryProm Query (Sprintf (snd (templates ! i)) [labels, timeWindow, groupBy]) =
             Inr (vec (?l ! i))" if "i < length templates" for i
  proof -
    have nth: "?l ! i = sub_query Query (fst (templates ! i))
                 (Sprintf (snd (templates ! i)) [labels, timeWindow, groupBy])"
      using that by (simp add: launched_def nth_append case_prod_beta)
    have "?l ! i \<in> set ?l"
      using that by (simp add: length_launched)
    with assms(3) have "err (?l ! i) = None" by blast
    then show ?thesis unfolding nth by (rule sub)
  qed
  have lat: "queryProm Query (Sprintf latencyQueryTemplate [quantiles ! j, labels, timeWindow, groupBy]) =
             Inr (vec (?l ! (length templates + j)))" if "j < length quantiles" for j
  proof -
    have nth: "?l ! (length templates + j) = sub_query Query (quantiles ! j)
                 (Sprintf latencyQueryTemplate [quantiles ! j, labels, timeWindow, groupBy])"
      using that by (simp add: launched_def nth_append)
    have "?l ! (length templates + j) \<in> set ?l"
      using that by (simp add: length_launched)
    with assms(3) have "err (?l ! (length templates + j)) = None" by blast
    then show ?thesis unfolding nth by (rule sub)
  qed
  from ret len perm tags q req lat show ?thesis by blast
qed

theorem aggregate_succeeds_with_all_results_witness:
  "valid_schedule example_templates [2, 0, 3, 1]
   \<and> distinct (map fst example_templates)
   \<and> getPrometheusMetrics Sprintf_s succeeding_Query example_templates example_latency_template
        ''{}'' ''1m'' ''pod'' [2, 0, 3, 1] =
       Some (Inr [\<lparr>prom = ''0.95'', vec = [22], err = None\<rparr>,
                  \<lparr>prom = ''QUERY_REQUESTS'', vec = [16], err = None\<rparr>,
                  \<lparr>prom = ''0.99'', vec = [22], err = None\<rparr>,
                  \<lparr>prom = ''0.5'', vec = [21], err = None\<rparr>], [])"
proof -
  have v: "valid_schedule example_templates [2, 0, 3, 1]"
    by (simp add: valid_schedule_def example_templates_def quantiles_def upt_rec numeral_eq_Suc)
  have d: "distinct (map fst example_templates)"
    by (simp add: example_templates_def)
  have f: "\<forall>r \<in> set (launched Sprintf_s succeeding_Query example_templates example_latency_template
             ''{}'' ''1m'' ''pod''). err r = None"
    by (simp add: example_eval)
  have a: "arrival Sprintf_s succeeding_Query example_templates example_latency_template
             ''{}'' ''1m'' ''pod'' [2, 0, 3, 1] =
           [\<lparr>prom = ''0.95'', vec = [22], err = None\<rparr>,
            \<lparr>prom = ''QUERY_REQUESTS'', vec = [16], err = None\<rparr>,
            \<lparr>prom = ''0.99'', vec = [22], err = None\<rparr>,
            \<lparr>prom = ''0.5'', vec = [21], err = None\<rparr>]"
    by (simp add: example_eval numeral_eq_Suc)
  from aggregate_succeeds_with_all_results [OF v d f] v d show ?thesis
    by (simp only: a simp_thms)
qed

section \<open>Properties of the address updates\<close>

subsection \<open>Replaying notifications\<close>











subsection \<open>One subscription\<close>





subsection \<open>One service and port\<close>








subsection \<open>The Index\<close>










subsection \<open>The collecting listener\<close>











section \<open>Properties of the pod listing\<close>

text \<open>
  C6. A \<open>ListPods\<close> request that sets both the namespace and a resource in its selector
  is rejected: the call returns a nil response and the error with the cause
  cannot set both namespace and resource in the request. These are mutually exclusive,
  and no call to the cache or to the metrics backend is made.
\<close>

theorem list_pods_rejects_namespace_with_resource:
  assumes "ListPodsRequest_Namespace req \<noteq> ''''"
    and "Selector req = Some sel"
    and "Selection_Resource sel = Some res"
  shows "ListPods serve req =
           ([], Inl (Error ''cannot set both namespace and resource in the request. These are mutually exclusive''))"
  using assms by (simp add: ListPods_def GetResource_def)

theorem list_pods_rejects_namespace_with_resource_witness:
  "ListPodsRequest_Namespace test_request = ''test''
   \<and> fst (querying_serve test_request) \<noteq> []
   \<and> ListPods querying_serve test_request = ([], Inl test_err)"
proof -
  have ns: "ListPodsRequest_Namespace test_request \<noteq> ''''"
    and nm: "ListPodsRequest_Namespace test_request = ''test''"
    and sel: "Selector test_request =
      Some \<lparr>Selection_Resource =
               Some \<lparr>Resource_Namespace = '''', Resource_Type = Pod, Resource_Name = ''''\<rparr>,
             LabelSelector = ''''\<rparr>"
    by (simp_all add: test_request_def)
  have res: "Selection_Resource
      \<lparr>Selection_Resource =
         Some \<lparr>Resource_Namespace = '''', Resource_Type = Pod, Resource_Name = ''''\<rparr>,
       LabelSelector = ''''\<rparr> =
      Some \<lparr>Resource_Namespace = '''', Resource_Type = Pod, Resource_Name = ''''\<rparr>"
    by simp
  have calls: "fst (querying_serve test_request) \<noteq> []"
    by (simp add: querying_serve_def)
  from list_pods_rejects_namespace_with_resource [OF ns sel res, of querying_serve] nm calls
  show ?thesis by (simp add: test_err_def)
qed

section \<open>Properties of the resource detail page\<close>

lemma resourceIsMeshed_then:
  "resourceIsMeshed (loadFromServer_then st rm pm belongs up down now um) =
     (if resourceMetrics st \<noteq> [] then js_gt_zero (get_first_meshedPods (resourceMetrics st)) else True)"
  by (simp add: loadFromServer_then_def Let_def)

lemma js_gt_zero_case: "js_gt_zero v = (case v of JsNumber n \<Rightarrow> 0 < n | _ \<Rightarrow> False)"
  by (cases v) simp_all

lemma first_row_flag:
  "js_gt_zero (get_first_meshedPods (m # rest)) =
     (case pods m of
        None \<Rightarrow> False
      | Some p \<Rightarrow> (case meshedPods p of JsNumber n \<Rightarrow> 0 < n | _ \<Rightarrow> False))"
  by (cases "pods m") (simp_all add: js_gt_zero_case)

text \<open>
  C7. When the responses of a poll are processed, the flag \<open>resourceIsMeshed\<close> is true
  if the resource metrics stored before are empty, and otherwise true exactly if the
  first of them has \<open>pods.meshedPods > 0\<close>. Nothing else enters: two states whose stored
  metrics begin with the same row get the same flag, whatever the other rows, the rest of
  the state and the responses are.
\<close>

theorem resource_is_meshed_by_first_stored_row:
  "(resourceMetrics (st :: ('m, 'u) ResourceDetail_state) = [] \<longrightarrow>
      resourceIsMeshed (loadFromServer_then st rm pm belongs up down now um))
   \<and> (\<forall>m rest. resourceMetrics st = m # rest \<longrightarrow>
        resourceIsMeshed (loadFromServer_then st rm pm belongs up down now um) =
          (case pods m of
             None \<Rightarrow> False
           | Some p \<Rightarrow> (case meshedPods p of JsNumber n \<Rightarrow> 0 < n | _ \<Rightarrow> False)))
   \<and> (\<forall>m rest rest' st' rm' pm' belongs' up' down' now' um'.
        resourceMetrics st = m # rest \<and>
        resourceMetrics (st' :: ('m, 'u) ResourceDetail_state) = m # rest' \<longrightarrow>
        resourceIsMeshed (loadFromServer_then st rm pm belongs up down now um) =
        resourceIsMeshed (loadFromServer_then st' rm' pm' belongs' up' down' now' um'))"
proof -
  have empty: "resourceMetrics st = [] \<longrightarrow>
      resourceIsMeshed (loadFromServer_then st rm pm belongs up down now um)"
    by (simp add: resourceIsMeshed_then)
  have first: "\<forall>m rest. resourceMetrics st = m # rest \<longrightarrow>
        resourceIsMeshed (loadFromServer_then st rm pm belongs up down now um) =
          (case pods m of
             None \<Rightarrow> False
           | Some p \<Rightarrow> (case meshedPods p of JsNumber n \<Rightarrow> 0 < n | _ \<Rightarrow> False))"
    by (simp add: resourceIsMeshed_then first_row_flag del: get_first_meshedPods.simps)
  have same: "\<forall>m rest rest' st' rm' pm' belongs' up' down' now' um'.
        resourceMetrics st = m # rest \<and>
        resourceMetrics (st' :: ('m, 'u) ResourceDetail_state) = m # rest' \<longrightarrow>
        resourceIsMeshed (loadFromServer_then st rm pm belongs up down now um) =
        resourceIsMeshed (loadFromServer_then st' rm' pm' belongs' up' down' now' um')"
    by (simp add: resourceIsMeshed_then)
  from empty first same show ?thesis by (intro conjI)
qed

theorem resource_is_meshed_by_first_stored_row_witness:
  "resourceIsMeshed (loadFromServer_then polled_state [unmeshed_row] [] (\<lambda>x. True) () () 5 ())
   \<and> resourceIsMeshed
        (loadFromServer_then (polled_state\<lparr>resourceMetrics := []\<rparr>) [unmeshed_row] [] (\<lambda>x. True) () () 5 ())
   \<and> \<not> resourceIsMeshed
        (loadFromServer_then (polled_state\<lparr>resourceMetrics := [unmeshed_row, meshed_row]\<rparr>)
           [meshed_row] [] (\<lambda>x. True) () () 5 ())"
proof -
  have a: "resourceMetrics polled_state = meshed_row # [unmeshed_row]"
    and b: "resourceMetrics (polled_state\<lparr>resourceMetrics := []\<rparr>) = []"
    and c: "resourceMetrics (polled_state\<lparr>resourceMetrics := [unmeshed_row, meshed_row]\<rparr>) =
              unmeshed_row # [meshed_row]"
    by (simp_all add: polled_state_def)
  have rows: "pods meshed_row = Some \<lparr>totalPods = JsNumber 2, meshedPods = JsNumber 2\<rparr>"
    "pods unmeshed_row = Some \<lparr>totalPods = JsNumber 1, meshedPods = JsNumber 0\<rparr>"
    by (simp_all add: meshed_row_def unmeshed_row_def)
  note first = resource_is_meshed_by_first_stored_row [THEN conjunct2, THEN conjunct1, rule_format]
  have 1: "resourceIsMeshed (loadFromServer_then polled_state [unmeshed_row] [] (\<lambda>x. True) () () 5 ())"
    by (simp add: first [OF a] rows)
  have 2: "resourceIsMeshed
        (loadFromServer_then (polled_state\<lparr>resourceMetrics := []\<rparr>) [unmeshed_row] [] (\<lambda>x. True) () () 5 ())"
    by (rule resource_is_meshed_by_first_stored_row [THEN conjunct1, rule_format, OF b])
  have 3: "\<not> resourceIsMeshed
        (loadFromServer_then (polled_state\<lparr>resourceMetrics := [unmeshed_row, meshed_row]\<rparr>)
           [meshed_row] [] (\<lambda>x. True) () () 5 ())"
    by (simp add: first [OF c] rows)
  from 1 2 3 show ?thesis by (intro conjI)
qed

end
